theory Spec2Isabelle
  imports Complex_Main
begin

section \<open>Python values used by gen\_station\_regions.py\<close>

text \<open>
  The script is Python 2. Its integers are unbounded (\<open>int\<close>), \<open>/\<close> on two integers
  is floor division (\<open>div\<close> on \<open>int\<close>), and a failing operation raises an exception,
  which the model returns as \<open>Inl\<close> of a sum.
\<close>

datatype py_error = IndexError | ValueError | OverflowError

text \<open>
  Indexing \<open>s[i]\<close>: positions \<open>0 .. len(s) - 1\<close> are read from the front,
  positions \<open>-len(s) .. -1\<close> from the back, and every other position raises
  IndexError.
\<close>

definition getitem :: "'a list \<Rightarrow> int \<Rightarrow> py_error + 'a" where
  "getitem xs i =
     (if 0 \<le> i \<and> i < int (length xs) then Inr (xs ! nat i)
      else if i < 0 \<and> - int (length xs) \<le> i then Inr (xs ! nat (int (length xs) + i))
      else Inl IndexError)"

text \<open>\<open>str(n)\<close> for an integer: its decimal digits, with a minus sign when negative.\<close>

definition digit_char :: "nat \<Rightarrow> char" where
  "digit_char d = ''0123456789'' ! d"

fun str_nat :: "nat \<Rightarrow> string" where
  "str_nat n = (if n < 10 then [digit_char n] else str_nat (n div 10) @ [digit_char (n mod 10)])"

definition str :: "int \<Rightarrow> string" where
  "str i = (if i < 0 then CHR ''-'' # str_nat (nat (- i)) else str_nat (nat i))"

section \<open>The region classifier\<close>

text \<open>
  \<^verbatim>\<open>
  def get_region(lat, lon):
      if abs(lon) == 180:
          lon = -lon
      if lat < -60 or lat > 90 or lon < -180 or lon > 179:
          return "D"
      else:
          return "CBAA"[(lat + 60) / 50] + str((lon + 180) / 60 + 1)
  \<close>
  The parameter \<open>lon\<close> is reassigned; the model calls the argument \<open>lon0\<close> and the
  value after the first statement \<open>lon\<close>.
\<close>

definition get_region :: "int \<Rightarrow> int \<Rightarrow> py_error + string" where
  "get_region lat lon0 =
     (let lon = (if \<bar>lon0\<bar> = 180 then - lon0 else lon0)
      in if lat < - 60 \<or> lat > 90 \<or> lon < - 180 \<or> lon > 179 then Inr ''D''
         else (case getitem ''CBAA'' ((lat + 60) div 50) of
                 Inl e \<Rightarrow> Inl e
               | Inr c \<Rightarrow> Inr (c # str ((lon + 180) div 60 + 1))))"

text \<open>
  The codes of the 18 grid cells: a row letter \<open>A\<close>, \<open>B\<close> or \<open>C\<close> followed by a
  column digit \<open>1\<close> to \<open>6\<close>.
\<close>

definition is_grid_code :: "string \<Rightarrow> bool" where
  "is_grid_code s = (case s of [r, c] \<Rightarrow> r \<in> set ''ABC'' \<and> c \<in> set ''123456'' | _ \<Rightarrow> False)"

section \<open>The record pipeline\<close>

subsection \<open>Strings\<close>

text \<open>\<open>line.split(",")\<close>: the fields between commas; always at least one field.\<close>

fun split_comma :: "string \<Rightarrow> string list" where
  "split_comma [] = [[]]"
| "split_comma (c # cs) =
     (if c = CHR '','' then [] # split_comma cs
      else (case split_comma cs of
              [] \<Rightarrow> [[c]]
            | f # fs \<Rightarrow> (c # f) # fs))"

text \<open>\<open>s[1:-1]\<close>: the string without its first and last character (empty if shorter).\<close>

definition strip1 :: "string \<Rightarrow> string" where
  "strip1 s = butlast (tl s)"

text \<open>
  \<open>valid_id = re.compile("^\d{6}-\d{5}$")\<close>, used with \<open>match\<close>. On a byte string
  \<open>\d\<close> is an ASCII digit, and \<open>$\<close> matches at the end of the string or just before
  a newline that ends it.
\<close>

definition is_digit :: "char \<Rightarrow> bool" where
  "is_digit c = (c \<in> set ''0123456789'')"

definition valid_id :: "string \<Rightarrow> bool" where
  "valid_id s =
     (let body = (if length s = 13 \<and> last s = CHR 0x0A then butlast s else s)
      in length body = 12 \<and> list_all is_digit (take 6 body) \<and> body ! 6 = CHR ''-''
         \<and> list_all is_digit (drop 7 body))"

subsection \<open>Floating-point coordinates\<close>

text \<open>
  A Python float is an IEEE 754 double: a finite number, an infinity or a NaN. A
  finite double is \<open>m * 2^e\<close> for integers \<open>m\<close> and \<open>e\<close> with \<open>\<bar>m\<bar> < 2^53\<close> and
  \<open>-1074 \<le> e \<le> 971\<close>; \<open>Finite m e\<close> stands for it, and \<open>double_value\<close> is the
  real number it denotes. The sign of a zero is not kept: \<open>int\<close> does not see it.
  \<open>float(s)\<close> is the library's parser; it is a parameter \<open>pf\<close> of the pipeline,
  \<open>None\<close> when it raises ValueError.
\<close>

datatype pyfloat = Finite int int | PosInf | NegInf | NaN

definition double_value :: "int \<Rightarrow> int \<Rightarrow> real" where
  "double_value m e = (if 0 \<le> e then of_int m * 2 ^ nat e else of_int m / 2 ^ nat (- e))"

definition py_float :: "(string \<Rightarrow> pyfloat option) \<Rightarrow> string \<Rightarrow> py_error + pyfloat" where
  "py_float pf s = (case pf s of None \<Rightarrow> Inl ValueError | Some x \<Rightarrow> Inr x)"

text \<open>The number of binary digits of a positive integer (0 for the others).\<close>

function bit_length :: "int \<Rightarrow> int" where
  "bit_length n = (if n \<le> 0 then 0 else bit_length (n div 2) + 1)"
  by pat_completeness auto
termination
  by (relation "measure nat") auto

text \<open>
  Rounding of the exact value \<open>m * 2^e\<close> to a double, to nearest with ties to the even
  significand, as every arithmetic operation on doubles does. \<open>d\<close> is the number of
  low bits to drop so that 53 bits remain and the exponent is not below -1074; a
  result of magnitude \<open>2^1024\<close> or more is an infinity.
\<close>

definition round_double :: "int \<Rightarrow> int \<Rightarrow> pyfloat" where
  "round_double m e =
     (let d = max (bit_length \<bar>m\<bar> - 53) (- 1074 - e);
          q = (if d \<le> 0 then \<bar>m\<bar>
               else let t = \<bar>m\<bar> div 2 ^ nat d; r = \<bar>m\<bar> mod 2 ^ nat d; h = 2 ^ (nat d - 1)
                    in if h < r \<or> (r = h \<and> t mod 2 = 1) then t + 1 else t);
          x = (if d \<le> 0 then e else e + d)
      in if 1024 < bit_length q + x then (if m < 0 then NegInf else PosInf)
         else Finite (sgn m * q) x)"

text \<open>\<open>x + y\<close> on doubles: the exact sum, rounded once.\<close>

fun float_add :: "pyfloat \<Rightarrow> pyfloat \<Rightarrow> pyfloat" where
  "float_add (Finite m e) (Finite n f) =
     (let x = min e f in round_double (m * 2 ^ nat (e - x) + n * 2 ^ nat (f - x)) x)"
| "float_add NaN y = NaN"
| "float_add x NaN = NaN"
| "float_add PosInf NegInf = NaN"
| "float_add NegInf PosInf = NaN"
| "float_add PosInf y = PosInf"
| "float_add NegInf y = NegInf"
| "float_add x PosInf = PosInf"
| "float_add x NegInf = NegInf"

text \<open>
  \<open>int(x)\<close> for a float: truncation toward zero; an infinity raises OverflowError
  and a NaN raises ValueError.
\<close>

fun py_int :: "pyfloat \<Rightarrow> py_error + int" where
  "py_int (Finite m e) =
     Inr (if 0 \<le> e then m * 2 ^ nat e else sgn m * (\<bar>m\<bar> div 2 ^ nat (- e)))"
| "py_int PosInf = Inl OverflowError"
| "py_int NegInf = Inl OverflowError"
| "py_int NaN = Inl ValueError"

text \<open>
  \<open>int(x + k) - k\<close>, the expression the script uses for both coordinates
  (\<open>k = 90\<close> for the latitude, \<open>k = 180\<close> for the longitude). The integer literal
  \<open>k\<close> is converted to the double \<open>k * 2^0\<close> before the addition; 90 and 180 are
  doubles exactly.
\<close>

definition coord_to_int :: "int \<Rightarrow> pyfloat \<Rightarrow> py_error + int" where
  "coord_to_int k x =
     (case py_int (float_add x (Finite k 0)) of Inl e \<Rightarrow> Inl e | Inr i \<Rightarrow> Inr (i - k))"

subsection \<open>The loop of main\<close>

text \<open>
  \<^verbatim>\<open>
        try:
            lat = int(float(fields[6][1:-1]) + 90) - 90
            lon = int(float(fields[7][1:-1]) + 180) - 180
            region = get_region(lat, lon)
        except:
            region = 'D'
  \<close>
  \<open>parse_coord\<close> is \<open>int(float(field[1:-1]) + k) - k\<close> with whatever it raises as
  \<open>Inl\<close>, \<open>try_region\<close> is the body of the \<open>try\<close>, and \<open>region_of\<close> adds the bare
  \<open>except\<close>, which catches every exception. They run only after the check that there
  are at least 8 fields, so \<open>fields[6]\<close> and \<open>fields[7]\<close> exist.
\<close>

definition parse_coord :: "(string \<Rightarrow> pyfloat option) \<Rightarrow> int \<Rightarrow> string \<Rightarrow> py_error + int" where
  "parse_coord pf k field =
     (case py_float pf (strip1 field) of Inl e \<Rightarrow> Inl e | Inr x \<Rightarrow> coord_to_int k x)"

definition try_region :: "(string \<Rightarrow> pyfloat option) \<Rightarrow> string list \<Rightarrow> py_error + string" where
  "try_region pf fields =
     (case parse_coord pf 90 (fields ! 6) of
        Inl e \<Rightarrow> Inl e
      | Inr lat \<Rightarrow>
          (case parse_coord pf 180 (fields ! 7) of
             Inl e \<Rightarrow> Inl e
           | Inr lon \<Rightarrow> get_region lat lon))"

definition region_of :: "(string \<Rightarrow> pyfloat option) \<Rightarrow> string list \<Rightarrow> string" where
  "region_of pf fields = (case try_region pf fields of Inl e \<Rightarrow> ''D'' | Inr r \<Rightarrow> r)"

text \<open>
  The two output channels: the lines printed to standard output (without the newline
  that \<open>print\<close> adds) and the strings written to standard error, both in order.
\<close>

record channels =
  stdout :: "string list"
  stderr :: "string list"

text \<open>
  One iteration of \<open>for line in sys.stdin\<close>, after \<open>line_num += 1\<close>: \<open>line_num\<close> is
  the number of the line being read, counted from 1.
\<close>

definition main_step :: "(string \<Rightarrow> pyfloat option) \<Rightarrow> int \<Rightarrow> string \<Rightarrow> channels \<Rightarrow> channels" where
  "main_step pf line_num line io =
     (if line_num = 1 then io
      else let fields = split_comma line in
        if length fields < 8
        then io\<lparr>stderr := stderr io @ [''Too few fields on line '' @ str line_num @ [CHR 0x0A]]\<rparr>
        else let station = strip1 (fields ! 0) @ ''-'' @ strip1 (fields ! 1) in
          if \<not> valid_id station
          then io\<lparr>stderr := stderr io @
                 [''Invalid station '' @ [CHR 0x27] @ station @ [CHR 0x27] @ '' on line ''
                  @ str line_num @ [CHR 0x0A]]\<rparr>
          else io\<lparr>stdout := stdout io @ [station @ [CHR 0x09] @ region_of pf fields]\<rparr>)"

text \<open>The loop: \<open>line_num\<close> is the counter before the line is read.\<close>

fun main_loop :: "(string \<Rightarrow> pyfloat option) \<Rightarrow> int \<Rightarrow> string list \<Rightarrow> channels \<Rightarrow> channels" where
  "main_loop pf line_num [] io = io"
| "main_loop pf line_num (line # rest) io =
     main_loop pf (line_num + 1) rest (main_step pf (line_num + 1) line io)"

text \<open>
  \<open>main\<close>: the two comment lines, then the loop over standard input from counter 0.
  The script's name (\<open>sys.argv[0]\<close>) and the time of the run are parameters.
\<close>

definition main :: "(string \<Rightarrow> pyfloat option) \<Rightarrow> string \<Rightarrow> string \<Rightarrow> string list \<Rightarrow> channels" where
  "main pf argv0 ctime lines =
     main_loop pf 0 lines
       \<lparr>stdout = [''# Generated by '' @ argv0 @ '' at '' @ ctime @ '' using data'',
                  ''# from ftp://ftp.ncdc.noaa.gov/pub/data/noaa/isd-history.csv''],
        stderr = []\<rparr>"

section \<open>Auxiliary facts\<close>

lemma str_digit: "0 \<le> i \<Longrightarrow> i < 10 \<Longrightarrow> str i = [digit_char (nat i)]"
  by (simp add: str_def)

lemma getitem_in_range:
  "0 \<le> i \<Longrightarrow> i < int (length xs) \<Longrightarrow> getitem xs i = Inr (xs ! nat i)"
  by (simp add: getitem_def)

lemma row_index_bounds:
  "- 60 \<le> lat \<Longrightarrow> lat \<le> 90 \<Longrightarrow> 0 \<le> (lat + 60) div 50 \<and> (lat + 60) div 50 \<le> (3::int)"
proof
  assume a: "- 60 \<le> lat" "lat \<le> 90"
  then show "0 \<le> (lat + 60) div 50" by (simp add: pos_imp_zdiv_nonneg_iff)
  from a have "lat + 60 \<le> 150" by simp
  then have "(lat + 60) div 50 \<le> 150 div 50" by (rule zdiv_mono1) simp
  then show "(lat + 60) div 50 \<le> 3" by simp
qed

lemma col_bounds:
  "- 180 \<le> lon \<Longrightarrow> lon \<le> 179 \<Longrightarrow>
     1 \<le> (lon + 180) div 60 + 1 \<and> (lon + 180) div 60 + 1 \<le> (6::int)"
proof
  assume a: "- 180 \<le> lon" "lon \<le> 179"
  then have "0 \<le> (lon + 180) div 60" by (simp add: pos_imp_zdiv_nonneg_iff)
  then show "1 \<le> (lon + 180) div 60 + 1" by simp
  from a have "lon + 180 \<le> 359" by simp
  then have "(lon + 180) div 60 \<le> 359 div 60" by (rule zdiv_mono1) simp
  then show "(lon + 180) div 60 + 1 \<le> 6" by simp
qed

lemma row_letter: "0 \<le> i \<Longrightarrow> i \<le> (3::int) \<Longrightarrow> ''CBAA'' ! nat i \<in> set ''ABC''"
proof -
  assume "0 \<le> i" "i \<le> 3"
  then have "i = 0 \<or> i = 1 \<or> i = 2 \<or> i = 3" by arith
  then show ?thesis by auto
qed

lemma col_digit: "1 \<le> i \<Longrightarrow> i \<le> (6::int) \<Longrightarrow> digit_char (nat i) \<in> set ''123456''"
proof -
  assume "1 \<le> i" "i \<le> 6"
  then have "i = 1 \<or> i = 2 \<or> i = 3 \<or> i = 4 \<or> i = 5 \<or> i = 6" by arith
  then show ?thesis by (auto simp: digit_char_def)
qed

text \<open>
  The two branches of \<open>get_region\<close>, with \<open>lon\<close> the longitude after the first
  statement.
\<close>

lemma get_region_inside:
  assumes "- 60 \<le> lat" "lat \<le> 90" "- 180 \<le> lon" "lon \<le> 179"
    and "lon = (if \<bar>lon0\<bar> = 180 then - lon0 else lon0)"
  shows "get_region lat lon0 =
           Inr [''CBAA'' ! nat ((lat + 60) div 50), digit_char (nat ((lon + 180) div 60 + 1))]"
proof -
  from row_index_bounds [OF assms(1,2)]
  have r: "getitem ''CBAA'' ((lat + 60) div 50) = Inr (''CBAA'' ! nat ((lat + 60) div 50))"
    by (intro getitem_in_range) simp_all
  from col_bounds [OF assms(3,4)]
  have c: "str ((lon + 180) div 60 + 1) = [digit_char (nat ((lon + 180) div 60 + 1))]"
    by (intro str_digit) simp_all
  from assms have "\<not> (lat < - 60 \<or> lat > 90 \<or> lon < - 180 \<or> lon > 179)" by simp
  with r c assms(5) show ?thesis
    unfolding get_region_def Let_def by (simp only: if_False sum.case)
qed

lemma get_region_outside:
  assumes "lon = (if \<bar>lon0\<bar> = 180 then - lon0 else lon0)"
    and "lat < - 60 \<or> lat > 90 \<or> lon < - 180 \<or> lon > 179"
  shows "get_region lat lon0 = Inr ''D''"
  using assms unfolding get_region_def Let_def by simp

text \<open>
  The rounding at a few doubles: \<open>2^53 + 1\<close> is a tie and goes to the even
  significand, \<open>2^53 + 3\<close> is a tie and goes up, half of the smallest subnormal goes
  to zero, and the first value above the largest double is an infinity.
\<close>

lemma round_double_examples:
  "round_double 9007199254740993 0 = Finite 4503599627370496 1"
  "round_double 9007199254740995 0 = Finite 4503599627370498 1"
  "round_double 1 (- 1075) = Finite 0 (- 1074)"
  "round_double 18014398509481983 970 = PosInf"
  "round_double 18014398509481982 970 = Finite 9007199254740991 971"
  by code_simp+

lemma main_loop_append:
  "main_loop pf n (xs @ ys) io = main_loop pf (n + int (length xs)) ys (main_loop pf n xs io)"
  by (induction xs arbitrary: n io) (simp_all add: add.assoc add.commute)

section \<open>Properties of the classifier\<close>

text \<open>
  C1, as stated: for every \<open>lat\<close> in \<open>[-60, 90]\<close> and \<open>lon\<close> in \<open>[-180, 179]\<close> the
  result is a grid code. It fails at \<open>lon = -180\<close>: the first statement turns \<open>-180\<close>
  into \<open>180\<close>, which the bounds check rejects.
\<close>

theorem get_region_0_m180_not_grid_code:
  "get_region 0 (- 180) = Inr ''D'' \<and> \<not> is_grid_code ''D''"
  by (simp add: get_region_def is_grid_code_def)

text \<open>
  C1, amended: for every \<open>lat\<close> in \<open>[-60, 90]\<close> and \<open>lon\<close> in \<open>[-179, 179]\<close>,
  \<open>get_region\<close> returns a two-character code, a letter \<open>A\<close>, \<open>B\<close> or \<open>C\<close> followed
  by a digit \<open>1\<close> to \<open>6\<close>.
\<close>

theorem get_region_grid_code:
  assumes "- 60 \<le> lat" "lat \<le> 90" "- 179 \<le> lon" "lon \<le> 179"
  shows "\<exists>s. get_region lat lon = Inr s \<and> is_grid_code s"
proof -
  from assms have n: "lon = (if \<bar>lon\<bar> = 180 then - lon else lon)" by (auto simp: abs_if)
  from assms have l: "- 180 \<le> lon" by simp
  show ?thesis
    using get_region_inside [OF assms(1,2) l assms(4) n]
      row_letter row_index_bounds [OF assms(1,2)] col_digit col_bounds [OF l assms(4)]
    by (simp add: is_grid_code_def)
qed

theorem get_region_grid_code_witness:
  "\<exists>s. get_region 51 4 = Inr s \<and> is_grid_code s"
  using get_region_grid_code [of 51 4] by simp

text \<open>
  C2, as stated: a longitude of 180 or of -180 lands in column 1, and
  \<open>get_region(-60, -180)\<close> is \<open>"C1"\<close>. It is \<open>"D"\<close>.
\<close>

theorem get_region_m60_m180_not_C1:
  "get_region (- 60) (- 180) = Inr ''D'' \<and> get_region (- 60) (- 180) \<noteq> Inr ''C1''"
  by (simp add: get_region_def)

text \<open>
  C2, amended: for every \<open>lat\<close> in \<open>[-60, 90]\<close>, a longitude of exactly 180 is turned
  into -180 and lands in column 1 of the row of \<open>lat\<close>, and \<open>get_region(-60, 180)\<close>
  is \<open>"C1"\<close>; a longitude of exactly -180 is turned into 180 and the result is
  \<open>"D"\<close>.
\<close>

theorem get_region_lon_180_column_1:
  assumes "- 60 \<le> lat" "lat \<le> 90"
  shows "get_region lat 180 = Inr [''CBAA'' ! nat ((lat + 60) div 50), CHR ''1'']
         \<and> get_region lat (- 180) = Inr ''D''
         \<and> get_region (- 60) 180 = Inr ''C1''"
proof -
  have a: "get_region lat 180 = Inr [''CBAA'' ! nat ((lat + 60) div 50), CHR ''1'']"
    using get_region_inside [OF assms, of "- 180" 180] by (simp add: digit_char_def)
  have b: "get_region lat (- 180) = Inr ''D''"
    by (rule get_region_outside [of 180]) simp_all
  have c: "get_region (- 60) 180 = Inr ''C1''"
    using get_region_inside [of "- 60" "- 180" 180] by (simp add: digit_char_def)
  from a b c show ?thesis by blast
qed

theorem get_region_lon_180_column_1_witness:
  "get_region 0 180 = Inr ''B1'' \<and> get_region 0 (- 180) = Inr ''D''"
  using get_region_lon_180_column_1 [of 0] by simp

text \<open>
  C3, as stated: \<open>get_region(lat, 180) = get_region(lat, -180)\<close> for every \<open>lat\<close> in
  \<open>[-60, 90]\<close>. At \<open>lat = 0\<close> the two are \<open>"B1"\<close> and \<open>"D"\<close>.
\<close>

theorem get_region_0_180_neq_0_m180:
  "get_region 0 180 = Inr ''B1'' \<and> get_region 0 (- 180) = Inr ''D''
   \<and> get_region 0 180 \<noteq> get_region 0 (- 180)"
  by (simp add: get_region_def getitem_def str_digit digit_char_def)

text \<open>
  C3, amended: \<open>get_region(lat, 180)\<close> and \<open>get_region(lat, -180)\<close> are equal exactly
  when \<open>lat\<close> is outside \<open>[-60, 90]\<close> (both are \<open>"D"\<close>); for \<open>lat\<close> in \<open>[-60, 90]\<close>
  they differ.
\<close>

theorem get_region_wraparound_iff:
  "get_region lat 180 = get_region lat (- 180) \<longleftrightarrow> lat < - 60 \<or> lat > 90"
proof (cases "lat < - 60 \<or> lat > 90")
  case True
  then have "get_region lat 180 = Inr ''D''" "get_region lat (- 180) = Inr ''D''"
    by (simp_all add: get_region_def)
  with True show ?thesis by simp
next
  case False
  then have r: "- 60 \<le> lat" "lat \<le> 90" by simp_all
  have "get_region lat 180 = Inr [''CBAA'' ! nat ((lat + 60) div 50), CHR ''1'']"
    using get_region_inside [OF r, of "- 180" 180] by (simp add: digit_char_def)
  moreover have "get_region lat (- 180) = Inr ''D''"
    by (rule get_region_outside [of 180]) simp_all
  ultimately show ?thesis using False by simp
qed

theorem get_region_wraparound_iff_witness:
  "get_region 91 180 = get_region 91 (- 180) \<and> get_region 90 180 \<noteq> get_region 90 (- 180)"
  using get_region_wraparound_iff [of 91] get_region_wraparound_iff [of 90] by simp

text \<open>
  C4: when \<open>lat\<close> and the longitude after the first statement pass the bounds check,
  \<open>get_region\<close> returns the letter \<open>"CBAA"[(lat + 60) div 50]\<close> followed by
  \<open>str\<close> of the column number \<open>(lon + 180) div 60 + 1\<close>, and the column number is
  in \<open>[1, 6]\<close>.
\<close>

theorem get_region_formula:
  assumes "lon = (if \<bar>lon0\<bar> = 180 then - lon0 else lon0)"
    and "- 60 \<le> lat" "lat \<le> 90" "- 180 \<le> lon" "lon \<le> 179"
  shows "get_region lat lon0 =
           Inr (''CBAA'' ! nat ((lat + 60) div 50) # str ((lon + 180) div 60 + 1))
         \<and> getitem ''CBAA'' ((lat + 60) div 50) = Inr (''CBAA'' ! nat ((lat + 60) div 50))
         \<and> 1 \<le> (lon + 180) div 60 + 1 \<and> (lon + 180) div 60 + 1 \<le> 6"
proof -
  note cb = col_bounds [OF assms(4,5)]
  note rb = row_index_bounds [OF assms(2,3)]
  from cb have "str ((lon + 180) div 60 + 1) = [digit_char (nat ((lon + 180) div 60 + 1))]"
    by (intro str_digit) simp_all
  with get_region_inside [OF assms(2-5) assms(1)]
  have "get_region lat lon0 =
          Inr (''CBAA'' ! nat ((lat + 60) div 50) # str ((lon + 180) div 60 + 1))"
    by simp
  moreover from rb
  have "getitem ''CBAA'' ((lat + 60) div 50) = Inr (''CBAA'' ! nat ((lat + 60) div 50))"
    by (intro getitem_in_range) simp_all
  ultimately show ?thesis using cb by simp
qed

theorem get_region_formula_witness:
  "get_region 40 179 = Inr ''A6'' \<and> get_region 39 180 = Inr ''B1''"
  using get_region_formula [of 179 179 40] get_region_formula [of "- 180" 180 39]
  by (simp add: str_digit digit_char_def)

text \<open>
  C5: \<open>get_region(90, 0)\<close> is \<open>"A4"\<close>. Latitude 90 is not rejected by the bounds
  check; its row index is 3, the second \<open>A\<close> of \<open>"CBAA"\<close>.
\<close>

theorem get_region_90_0:
  "get_region 90 0 = Inr ''A4'' \<and> get_region 90 0 \<noteq> Inr ''D''
   \<and> (90 + 60) div 50 = (3::int) \<and> getitem ''CBAA'' 3 = Inr CHR ''A''"
  by (simp add: get_region_def getitem_def str_digit digit_char_def)

text \<open>
  C6: when \<open>lat < -60\<close> or \<open>lat > 90\<close>, or the longitude after the first statement
  is outside \<open>[-180, 179]\<close>, \<open>get_region\<close> returns \<open>"D"\<close>.
\<close>

theorem get_region_fallback:
  assumes "lon = (if \<bar>lon0\<bar> = 180 then - lon0 else lon0)"
    and "lat < - 60 \<or> lat > 90 \<or> lon < - 180 \<or> lon > 179"
  shows "get_region lat lon0 = Inr ''D''"
  using assms unfolding get_region_def Let_def by simp

theorem get_region_fallback_witness:
  "get_region (- 61) 0 = Inr ''D'' \<and> get_region 91 0 = Inr ''D''
   \<and> get_region 0 (- 181) = Inr ''D'' \<and> get_region 0 181 = Inr ''D''
   \<and> get_region 0 (- 180) = Inr ''D''"
  using get_region_fallback [of 0 0 "- 61"] get_region_fallback [of 0 0 91]
    get_region_fallback [of "- 181" "- 181" 0] get_region_fallback [of 181 181 0]
    get_region_fallback [of 180 "- 180" 0]
  by simp

text \<open>
  C10: \<open>get_region\<close> returns a region code for every pair of integers, one of the
  18 grid codes or \<open>"D"\<close>, never an exception; when \<open>lat\<close> passes the bounds check
  the row index \<open>(lat + 60) div 50\<close> is in \<open>[0, 3]\<close> and indexing \<open>"CBAA"\<close> with it
  succeeds.
\<close>

theorem get_region_total:
  "(\<exists>s. get_region lat lon0 = Inr s \<and> (is_grid_code s \<or> s = ''D''))
   \<and> (- 60 \<le> lat \<and> lat \<le> 90
      \<longrightarrow> 0 \<le> (lat + 60) div 50 \<and> (lat + 60) div 50 \<le> 3
          \<and> (\<exists>c. getitem ''CBAA'' ((lat + 60) div 50) = Inr c))"
proof
  define l where "l = (if \<bar>lon0\<bar> = 180 then - lon0 else lon0)"
  show "\<exists>s. get_region lat lon0 = Inr s \<and> (is_grid_code s \<or> s = ''D'')"
  proof (cases "lat < - 60 \<or> lat > 90 \<or> l < - 180 \<or> l > 179")
    case True
    then show ?thesis using get_region_outside [of l lon0 lat] by (simp add: l_def)
  next
    case False
    then have b: "- 60 \<le> lat" "lat \<le> 90" "- 180 \<le> l" "l \<le> 179" by simp_all
    have "is_grid_code [''CBAA'' ! nat ((lat + 60) div 50), digit_char (nat ((l + 180) div 60 + 1))]"
      using row_letter row_index_bounds [OF b(1,2)] col_digit col_bounds [OF b(3,4)]
      by (simp add: is_grid_code_def)
    with get_region_inside [OF b, of lon0] show ?thesis by (simp add: l_def)
  qed
  show "- 60 \<le> lat \<and> lat \<le> 90
      \<longrightarrow> 0 \<le> (lat + 60) div 50 \<and> (lat + 60) div 50 \<le> 3
          \<and> (\<exists>c. getitem ''CBAA'' ((lat + 60) div 50) = Inr c)"
  proof
    assume "- 60 \<le> lat \<and> lat \<le> 90"
    then have r: "- 60 \<le> lat" "lat \<le> 90" by simp_all
    note rb = row_index_bounds [OF r]
    then have "getitem ''CBAA'' ((lat + 60) div 50) = Inr (''CBAA'' ! nat ((lat + 60) div 50))"
      by (intro getitem_in_range) simp_all
    with rb show "0 \<le> (lat + 60) div 50 \<and> (lat + 60) div 50 \<le> 3
          \<and> (\<exists>c. getitem ''CBAA'' ((lat + 60) div 50) = Inr c)" by simp
  qed
qed

theorem get_region_total_witness:
  "(\<exists>s. get_region 90 179 = Inr s \<and> (is_grid_code s \<or> s = ''D''))
   \<and> (\<exists>s. get_region (- 1000) 555 = Inr s \<and> (is_grid_code s \<or> s = ''D''))
   \<and> (\<exists>c. getitem ''CBAA'' ((90 + 60) div 50) = Inr c)"
  using get_region_total [of 90 179] get_region_total [of "- 1000" 555] by simp

section \<open>Properties of the pipeline\<close>

text \<open>
  C7: the integer handed to the classifier should be \<open>floor(v)\<close>, and the comment in
  the source says the offset is there to truncate toward negative infinity. The
  expression \<open>int(v + 90) - 90\<close> does not always do so.

  The latitude field \<open>"39.99999999999999"\<close> is read as the double
  \<open>5629499534213119 * 2^-47\<close>, the largest double below 40, whose floor is 39. The
  sum with 90 is rounded to the double 130, so the classifier receives 40: the line
  printed for longitude \<open>"4.4"\<close> has region \<open>A4\<close>, where \<open>get_region(39, 4)\<close> is
  \<open>B4\<close>.

  The latitude field \<open>"-90.5"\<close> is read as \<open>-181 * 2^-1\<close>, whose floor is -91. The
  sum with 90 is \<open>-0.5\<close>, which \<open>int\<close> truncates to 0, so the result is -90.
\<close>

theorem offset_truncation_not_floor:
  "parse_coord [''39.99999999999999'' \<mapsto> Finite 5629499534213119 (- 47)] 90
       ([CHR 0x22] @ ''39.99999999999999'' @ [CHR 0x22]) = Inr 40
   \<and> \<lfloor>double_value 5629499534213119 (- 47)\<rfloor> = 39
   \<and> \<lfloor>double_value 2476979795053773 (- 49)\<rfloor> = 4
   \<and> main_loop [''39.99999999999999'' \<mapsto> Finite 5629499534213119 (- 47),
                 ''4.4'' \<mapsto> Finite 2476979795053773 (- 49)] 0
         [''USAF,WBAN'',
          [CHR 0x22] @ ''029070'' @ [CHR 0x22] @ '','' @ [CHR 0x22] @ ''99999'' @ [CHR 0x22]
          @ '',a,b,c,d,'' @ [CHR 0x22] @ ''39.99999999999999'' @ [CHR 0x22] @ '',''
          @ [CHR 0x22] @ ''4.4'' @ [CHR 0x22] @ '',x'']
         \<lparr>stdout = [], stderr = []\<rparr>
       = \<lparr>stdout = [''029070-99999'' @ [CHR 0x09] @ ''A4''], stderr = []\<rparr>
   \<and> get_region 39 4 = Inr ''B4''
   \<and> parse_coord [''-90.5'' \<mapsto> Finite (- 181) (- 1)] 90
         ([CHR 0x22] @ ''-90.5'' @ [CHR 0x22]) = Inr (- 90)
   \<and> \<lfloor>double_value (- 181) (- 1)\<rfloor> = - 91"
proof (intro conjI)
  show "parse_coord [''39.99999999999999'' \<mapsto> Finite 5629499534213119 (- 47)] 90
          ([CHR 0x22] @ ''39.99999999999999'' @ [CHR 0x22]) = Inr 40"
    by code_simp
  show "\<lfloor>double_value 5629499534213119 (- 47)\<rfloor> = 39"
    by (simp add: double_value_def)
  show "\<lfloor>double_value 2476979795053773 (- 49)\<rfloor> = 4"
    by (simp add: double_value_def)
  show "main_loop [''39.99999999999999'' \<mapsto> Finite 5629499534213119 (- 47),
                   ''4.4'' \<mapsto> Finite 2476979795053773 (- 49)] 0
         [''USAF,WBAN'',
          [CHR 0x22] @ ''029070'' @ [CHR 0x22] @ '','' @ [CHR 0x22] @ ''99999'' @ [CHR 0x22]
          @ '',a,b,c,d,'' @ [CHR 0x22] @ ''39.99999999999999'' @ [CHR 0x22] @ '',''
          @ [CHR 0x22] @ ''4.4'' @ [CHR 0x22] @ '',x'']
         \<lparr>stdout = [], stderr = []\<rparr>
       = \<lparr>stdout = [''029070-99999'' @ [CHR 0x09] @ ''A4''], stderr = []\<rparr>"
    by code_simp
  show "get_region 39 4 = Inr ''B4''"
    by code_simp
  show "parse_coord [''-90.5'' \<mapsto> Finite (- 181) (- 1)] 90
          ([CHR 0x22] @ ''-90.5'' @ [CHR 0x22]) = Inr (- 90)"
    by code_simp
  show "\<lfloor>double_value (- 181) (- 1)\<rfloor> = - 91"
    by (simp add: double_value_def)
qed

text \<open>
  C8: a record that is not the header, has at least 8 fields and a valid station
  identifier, and for which the conversion of the latitude field or of the longitude
  field raises, is not skipped: the line \<open><station><TAB>D\<close> is added to standard
  output, nothing is added to standard error, and the loop goes on with the lines
  after it.
\<close>

theorem main_loop_unparseable_coordinates:
  assumes "pre \<noteq> []"
    and "fs = split_comma line" and "\<not> length fs < 8"
    and "station = strip1 (fs ! 0) @ ''-'' @ strip1 (fs ! 1)" and "valid_id station"
    and "(\<exists>e. parse_coord pf 90 (fs ! 6) = Inl e) \<or> (\<exists>e. parse_coord pf 180 (fs ! 7) = Inl e)"
  shows "main_loop pf 0 (pre @ line # post) io =
           main_loop pf (int (length pre) + 1) post
             ((main_loop pf 0 pre io)
                \<lparr>stdout := stdout (main_loop pf 0 pre io) @ [station @ [CHR 0x09] @ ''D'']\<rparr>)"
proof -
  from assms(6) have "region_of pf fs = ''D''"
    by (auto simp: region_of_def try_region_def split: sum.splits)
  moreover from assms(1) have "int (length pre) + 1 \<noteq> 1" by simp
  ultimately
  have "main_step pf (int (length pre) + 1) line (main_loop pf 0 pre io) =
          (main_loop pf 0 pre io)
            \<lparr>stdout := stdout (main_loop pf 0 pre io) @ [station @ [CHR 0x09] @ ''D'']\<rparr>"
    using assms(2-5) by (simp add: main_step_def Let_def)
  then show ?thesis by (simp add: main_loop_append)
qed

theorem main_loop_unparseable_coordinates_witness:
  "main_loop [''51.9'' \<mapsto> Finite 7304275645641523 (- 47)] 0
      [''USAF,WBAN'',
       [CHR 0x22] @ ''029070'' @ [CHR 0x22] @ '','' @ [CHR 0x22] @ ''99999'' @ [CHR 0x22]
       @ '',a,b,c,d,'' @ [CHR 0x22] @ ''51.9'' @ [CHR 0x22] @ '','' @ [CHR 0x22, CHR 0x22] @ '',x'']
      \<lparr>stdout = [], stderr = []\<rparr>
     = \<lparr>stdout = [''029070-99999'' @ [CHR 0x09] @ ''D''], stderr = []\<rparr>"
  using main_loop_unparseable_coordinates [of "[''USAF,WBAN'']"
      "split_comma ([CHR 0x22] @ ''029070'' @ [CHR 0x22] @ '','' @ [CHR 0x22] @ ''99999'' @ [CHR 0x22]
       @ '',a,b,c,d,'' @ [CHR 0x22] @ ''51.9'' @ [CHR 0x22] @ '','' @ [CHR 0x22, CHR 0x22] @ '',x'')"
      "[CHR 0x22] @ ''029070'' @ [CHR 0x22] @ '','' @ [CHR 0x22] @ ''99999'' @ [CHR 0x22]
       @ '',a,b,c,d,'' @ [CHR 0x22] @ ''51.9'' @ [CHR 0x22] @ '','' @ [CHR 0x22, CHR 0x22] @ '',x''"
      "''029070-99999''" "[''51.9'' \<mapsto> Finite 7304275645641523 (- 47)]" "[]" "\<lparr>stdout = [], stderr = []\<rparr>"]
  by (simp add: strip1_def valid_id_def is_digit_def parse_coord_def py_float_def main_step_def)

text \<open>
  C9: a line that is not the first and splits into fewer than 8 fields leaves standard
  output as it was after the lines before it, adds the one diagnostic
  \<open>Too few fields on line n\<close> with \<open>n\<close> its position counted from 1, and the loop
  goes on with the lines after it.
\<close>

theorem main_loop_too_few_fields:
  assumes "pre \<noteq> []" and "length (split_comma line) < 8"
  shows "main_loop pf 0 (pre @ line # post) io =
           main_loop pf (int (length pre) + 1) post
             ((main_loop pf 0 pre io)
                \<lparr>stderr := stderr (main_loop pf 0 pre io)
                     @ [''Too few fields on line '' @ str (int (length pre) + 1) @ [CHR 0x0A]]\<rparr>)"
proof -
  from assms(1) have "int (length pre) + 1 \<noteq> 1" by simp
  with assms(2)
  have "main_step pf (int (length pre) + 1) line (main_loop pf 0 pre io) =
          (main_loop pf 0 pre io)
            \<lparr>stderr := stderr (main_loop pf 0 pre io)
                 @ [''Too few fields on line '' @ str (int (length pre) + 1) @ [CHR 0x0A]]\<rparr>"
    by (simp add: main_step_def)
  then show ?thesis by (simp add: main_loop_append)
qed

theorem main_loop_too_few_fields_witness:
  "main_loop Map.empty 0 [''USAF,WBAN'', ''a,b,c,d,e'', ''f,g''] \<lparr>stdout = [], stderr = []\<rparr>
     = \<lparr>stdout = [],
        stderr = [''Too few fields on line 2'' @ [CHR 0x0A],
                  ''Too few fields on line 3'' @ [CHR 0x0A]]\<rparr>"
  using main_loop_too_few_fields [of "[''USAF,WBAN'']" "''a,b,c,d,e''" Map.empty "[''f,g'']"
           "\<lparr>stdout = [], stderr = []\<rparr>"]
  by (simp add: main_step_def str_digit digit_char_def)

end
